theory Spec2Isabelle
  imports Complex_Main "HOL-Library.AList"
begin

section \<open>Values of the numerical library\<close>

text \<open>
  A numpy float is a real number or one of the three special values of IEEE arithmetic.
  Rounding and signed zeros are idealised away: finite values are real numbers and
  arithmetic on them is exact. The special values are kept, since the code tests for
  them (\<open>np.isfinite\<close>) and comparisons with NaN are false.
\<close>

datatype npfloat = Fin real | NaN | PInf | NInf

datatype pyerror = ValueError | IndexError | TypeError | NameError | LinAlgError

text \<open>Division of two finite floats, as numpy does it elementwise (no exception).\<close>

definition np_div :: "real \<Rightarrow> real \<Rightarrow> npfloat" where
  "np_div x m =
     (if m = 0 then (if x = 0 then NaN else if 0 < x then PInf else NInf)
      else Fin (x / m))"

text \<open>\<open>np.greater\<close> and \<open>np.less\<close>: false as soon as one side is NaN.\<close>

fun np_less :: "npfloat \<Rightarrow> npfloat \<Rightarrow> bool" where
  "np_less NaN _ = False"
| "np_less _ NaN = False"
| "np_less (Fin x) (Fin y) = (x < y)"
| "np_less (Fin x) PInf = True"
| "np_less (Fin x) NInf = False"
| "np_less PInf _ = False"
| "np_less NInf NInf = False"
| "np_less NInf _ = True"

definition np_greater :: "npfloat \<Rightarrow> npfloat \<Rightarrow> bool" where
  "np_greater a b = np_less b a"

fun np_add :: "npfloat \<Rightarrow> npfloat \<Rightarrow> npfloat" where
  "np_add NaN _ = NaN"
| "np_add _ NaN = NaN"
| "np_add (Fin x) (Fin y) = Fin (x + y)"
| "np_add (Fin x) PInf = PInf"
| "np_add (Fin x) NInf = NInf"
| "np_add PInf NInf = NaN"
| "np_add PInf _ = PInf"
| "np_add NInf PInf = NaN"
| "np_add NInf _ = NInf"

fun np_neg :: "npfloat \<Rightarrow> npfloat" where
  "np_neg (Fin x) = Fin (- x)"
| "np_neg NaN = NaN"
| "np_neg PInf = NInf"
| "np_neg NInf = PInf"

definition np_sub :: "npfloat \<Rightarrow> npfloat \<Rightarrow> npfloat" where
  "np_sub a b = np_add a (np_neg b)"

text \<open>Division by the literal \<open>2.0\<close>.\<close>

fun np_half :: "npfloat \<Rightarrow> npfloat" where
  "np_half (Fin x) = Fin (x / 2)"
| "np_half v = v"

fun np_isfinite :: "npfloat \<Rightarrow> bool" where
  "np_isfinite (Fin x) = True"
| "np_isfinite _ = False"

fun np_sqrt :: "npfloat \<Rightarrow> npfloat" where
  "np_sqrt (Fin x) = (if x < 0 then NaN else Fin (sqrt x))"
| "np_sqrt PInf = PInf"
| "np_sqrt v = NaN"

text \<open>\<open>np.arange(lo, hi)\<close> on integers: empty when \<open>hi \<le> lo\<close>.\<close>

definition nparange :: "int \<Rightarrow> int \<Rightarrow> int list" where
  "nparange lo hi = [lo..hi - 1]"

text \<open>\<open>np.max\<close> of a one-dimensional array; a zero-size array has no maximum.\<close>

definition npmax :: "real list \<Rightarrow> pyerror + real" where
  "npmax xs = (if xs = [] then Inl ValueError else Inr (Max (set xs)))"

text \<open>\<open>np.median\<close>; of an empty array it is NaN (with a warning, no exception).\<close>

definition npmedian :: "real list \<Rightarrow> npfloat" where
  "npmedian xs =
     (if xs = [] then NaN
      else let s = sort xs; n = length xs
           in if even n then Fin ((s ! (n div 2 - 1) + s ! (n div 2)) / 2)
              else Fin (s ! (n div 2)))"

fun np_scale :: "real \<Rightarrow> npfloat \<Rightarrow> npfloat" where
  "np_scale c (Fin x) = Fin (c * x)"
| "np_scale c v = (if c = 0 then NaN else if 0 < c then v else np_neg v)"

section \<open>autocorr.py\<close>

text \<open>
  \<open>np.correlate(a, v, mode='full')\<close> for real arrays: entry \<open>j\<close> is the sum over
  \<open>i\<close> of \<open>a[i + j - (len(v) - 1)] * v[i]\<close>, the arrays zero-padded outside their
  range; the result has \<open>len(a) + len(v) - 1\<close> entries. Empty arguments are refused.
\<close>

definition corr_entry :: "real list \<Rightarrow> real list \<Rightarrow> nat \<Rightarrow> real" where
  "corr_entry a v j =
     sum_list (map (\<lambda>i. if length v - 1 \<le> i + j \<and> i + j - (length v - 1) < length a
                         then a ! (i + j - (length v - 1)) * v ! i else 0)
                   [0..<length v])"

definition npcorrelate_full :: "real list \<Rightarrow> real list \<Rightarrow> pyerror + real list" where
  "npcorrelate_full a v =
     (if a = [] \<or> v = [] then Inl ValueError
      else Inr (map (corr_entry a v) [0..<length a + length v - 1]))"

text \<open>
  \<open>_autocorr_func3(mags, lag, maglen, magmed, magstd)\<close>: the full correlation of the
  series with itself, every entry divided by the maximum, cut at
  \<open>int(result.size / 2)\<close>. The last four parameters are not used by the body.
\<close>

definition autocorr_func3 ::
  "real list \<Rightarrow> int \<Rightarrow> nat \<Rightarrow> real \<Rightarrow> npfloat \<Rightarrow> pyerror + npfloat list" where
  "autocorr_func3 mags lag maglen magmed magstd =
     (case npcorrelate_full mags mags of
        Inl e \<Rightarrow> Inl e
      | Inr result \<Rightarrow>
          (case npmax result of
             Inl e \<Rightarrow> Inl e
           | Inr m \<Rightarrow>
               (let result' = map (\<lambda>x. np_div x m) result
                in Inr (drop (length result' div 2) result'))))"

text \<open>
  The dictionary returned by the gap-filling routine of \<open>lcmath\<close> (an external
  collaborator of this module), reduced to the keys this module reads.
\<close>

record gapfilled =
  gf_itimes :: "real list"
  gf_imags :: "real list"
  gf_ierrs :: "real list"
  gf_cadence :: real

text \<open>The same dictionary after \<open>interpolated.update\<close> added three keys.\<close>

record acfres =
  ac_itimes :: "real list"
  ac_imags :: "real list"
  ac_ierrs :: "real list"
  ac_cadence :: real
  ac_minitime :: real
  ac_lags :: "int list"
  ac_acf :: "npfloat list"

text \<open>
  \<open>autocorr_magseries\<close> with the default estimator \<open>func=_autocorr_func3\<close>, which is
  how \<open>macf_period_find\<close> calls it. The first argument is what the external call
  \<open>fill_magseries_gaps(times, mags, errs, ...)\<close> returned (\<open>None\<close> on failure).
  In \<open>autocorr.py\<close> the name \<open>LOGERROR\<close> is not bound, so the failure branch raises
  NameError before it reaches \<open>return None\<close>. The lag array is built from \<open>maxlags\<close>
  when that is truthy, otherwise from the length of the time array; \<open>lags[0]\<close> is
  evaluated for the call of the estimator, and \<open>itimes.min()\<close> for the update.
\<close>

definition autocorr_magseries :: "gapfilled option \<Rightarrow> int option \<Rightarrow> pyerror + acfres" where
  "autocorr_magseries interpolated maxlags =
     (case interpolated of
        None \<Rightarrow> Inl NameError
      | Some interp \<Rightarrow>
          (let itimes = gf_itimes interp;
               imags = gf_imags interp;
               ierrs = gf_ierrs interp;
               lags = (case maxlags of
                         None \<Rightarrow> nparange 0 (int (length itimes))
                       | Some ml \<Rightarrow> if ml = 0 then nparange 0 (int (length itimes))
                                   else nparange 0 ml);
               series_stdev = np_scale 1.483 (npmedian (map abs imags))
           in (case lags of
                 [] \<Rightarrow> Inl IndexError
               | lag0 # _ \<Rightarrow>
                   (case autocorr_func3 imags lag0 (length imags) 0 series_stdev of
                      Inl e \<Rightarrow> Inl e
                    | Inr autocorr \<Rightarrow>
                        if itimes = [] then Inl ValueError
                        else Inr \<lparr>ac_itimes = itimes, ac_imags = imags, ac_ierrs = ierrs,
                                  ac_cadence = gf_cadence interp,
                                  ac_minitime = Min (set itimes),
                                  ac_lags = lags, ac_acf = autocorr\<rparr>))))"

section \<open>macf.py: the peak extractor\<close>

text \<open>
  \<open>scipy.signal.argrelmax\<close> and \<open>argrelmin\<close> on a one-dimensional array, as the
  library computes them (\<open>mode='clip'\<close>): an order below 1 is refused; index \<open>i\<close>
  qualifies when the comparator holds between \<open>data[i]\<close> and both \<open>data[i + shift]\<close>
  and \<open>data[i - shift]\<close> for every shift from 1 to the order, indices outside the
  array being clipped to its ends.
\<close>

definition clip_index :: "nat \<Rightarrow> int \<Rightarrow> nat" where
  "clip_index n j = (if j < 0 then 0 else if int n - 1 < j then n - 1 else nat j)"

definition boolrelextrema ::
  "(npfloat \<Rightarrow> npfloat \<Rightarrow> bool) \<Rightarrow> npfloat list \<Rightarrow> int \<Rightarrow> pyerror + bool list" where
  "boolrelextrema comparator data searchorder =
     (if searchorder < 1 then Inl ValueError
      else Inr (map (\<lambda>i. list_all
                            (\<lambda>shift.
                               comparator (data ! i)
                                 (data ! clip_index (length data) (int i + shift))
                               \<and> comparator (data ! i)
                                   (data ! clip_index (length data) (int i - shift)))
                            [1..searchorder])
                    [0..<length data]))"

definition argrelmax :: "npfloat list \<Rightarrow> int \<Rightarrow> pyerror + nat list" where
  "argrelmax data searchorder =
     (case boolrelextrema np_greater data searchorder of
        Inl e \<Rightarrow> Inl e
      | Inr results \<Rightarrow> Inr (filter (\<lambda>i. results ! i) [0..<length results]))"

definition argrelmin :: "npfloat list \<Rightarrow> int \<Rightarrow> pyerror + nat list" where
  "argrelmin data searchorder =
     (case boolrelextrema np_less data searchorder of
        Inl e \<Rightarrow> Inl e
      | Inr results \<Rightarrow> Inr (filter (\<lambda>i. results ! i) [0..<length results]))"

text \<open>Indexing an array with an array of indices: one index out of range raises.\<close>

definition take_indices :: "'a list \<Rightarrow> nat list \<Rightarrow> pyerror + 'a list" where
  "take_indices xs inds =
     (if list_all (\<lambda>i. i < length xs) inds then Inr (map (\<lambda>i. xs ! i) inds)
      else Inl IndexError)"

text \<open>The dictionary returned by \<open>_get_acf_peakheights\<close>.\<close>

record peakres =
  pk_maxinds :: "nat list"
  pk_maxacfs :: "npfloat list"
  pk_maxlags :: "int list"
  pk_mininds :: "nat list"
  pk_minacfs :: "npfloat list"
  pk_minlags :: "int list"
  pk_relpeakheights :: "npfloat list"
  pk_relpeaklags :: "int list"
  pk_peakindices :: "int list"
  pk_bestlag :: int
  pk_bestpeakheight :: npfloat
  pk_bestpeakindex :: int

text \<open>
  The body of the loop \<open>for peakind, mxi in enumerate(maxinds[:npeaks])\<close>, over the
  three placeholder arrays. \<open>mininds[mininds < mxi][-1]\<close> and
  \<open>mininds[mininds > mxi][0]\<close> raise IndexError when the selection is empty, and so
  does \<open>lags[mxi]\<close> beyond the end of the lag array.
\<close>

fun peak_loop ::
  "int list \<Rightarrow> npfloat list \<Rightarrow> nat list \<Rightarrow> (nat \<times> nat) list
     \<Rightarrow> npfloat list \<times> int list \<times> int list
     \<Rightarrow> pyerror + npfloat list \<times> int list \<times> int list" where
  "peak_loop lags acf mininds [] arrays = Inr arrays"
| "peak_loop lags acf mininds ((peakind, mxi) # rest) (relpeakheights, relpeaklags, peakindices) =
     (case filter (\<lambda>m. m < mxi) mininds of
        [] \<Rightarrow> Inl IndexError
      | l # ls \<Rightarrow>
          (let leftminind = last (l # ls)
           in (case filter (\<lambda>m. mxi < m) mininds of
                 [] \<Rightarrow> Inl IndexError
               | rightminind # rs \<Rightarrow>
                   if mxi < length lags then
                     peak_loop lags acf mininds rest
                       (relpeakheights[peakind :=
                          np_sub (acf ! mxi)
                            (np_half (np_add (acf ! leftminind) (acf ! rightminind)))],
                        relpeaklags[peakind := lags ! mxi],
                        peakindices[peakind := int peakind])
                   else Inl IndexError)))"

text \<open>
  \<open>_get_acf_peakheights(lags, acf, npeaks, searchinterval)\<close>. \<open>np.zeros(npeaks)\<close>
  refuses a negative size; reading \<open>relpeakheights[0]\<close> and \<open>relpeakheights[1]\<close>
  raises IndexError when there are fewer than two placeholders.
\<close>

definition get_acf_peakheights ::
  "int list \<Rightarrow> npfloat list \<Rightarrow> int \<Rightarrow> int \<Rightarrow> pyerror + peakres" where
  "get_acf_peakheights lags acf npeaks searchinterval =
     (case argrelmax acf searchinterval of
        Inl e \<Rightarrow> Inl e
      | Inr maxinds \<Rightarrow>
     (case take_indices acf maxinds of
        Inl e \<Rightarrow> Inl e
      | Inr maxacfs \<Rightarrow>
     (case take_indices lags maxinds of
        Inl e \<Rightarrow> Inl e
      | Inr maxlags \<Rightarrow>
     (case argrelmin acf searchinterval of
        Inl e \<Rightarrow> Inl e
      | Inr mininds \<Rightarrow>
     (case take_indices acf mininds of
        Inl e \<Rightarrow> Inl e
      | Inr minacfs \<Rightarrow>
     (case take_indices lags mininds of
        Inl e \<Rightarrow> Inl e
      | Inr minlags \<Rightarrow>
          if npeaks < 0 then Inl ValueError
          else
            (case peak_loop lags acf mininds (enumerate 0 (take (nat npeaks) maxinds))
                    (replicate (nat npeaks) (Fin 0), replicate (nat npeaks) 0,
                     replicate (nat npeaks) 0) of
               Inl e \<Rightarrow> Inl e
             | Inr (relpeakheights, relpeaklags, peakindices) \<Rightarrow>
                 if nat npeaks < 2 then Inl IndexError
                 else if np_greater (relpeakheights ! 0) (relpeakheights ! 1) then
                   Inr \<lparr>pk_maxinds = maxinds, pk_maxacfs = maxacfs, pk_maxlags = maxlags,
                        pk_mininds = mininds, pk_minacfs = minacfs, pk_minlags = minlags,
                        pk_relpeakheights = relpeakheights, pk_relpeaklags = relpeaklags,
                        pk_peakindices = peakindices,
                        pk_bestlag = relpeaklags ! 0,
                        pk_bestpeakheight = relpeakheights ! 0,
                        pk_bestpeakindex = peakindices ! 0\<rparr>
                 else
                   Inr \<lparr>pk_maxinds = maxinds, pk_maxacfs = maxacfs, pk_maxlags = maxlags,
                        pk_mininds = mininds, pk_minacfs = minacfs, pk_minlags = minlags,
                        pk_relpeakheights = relpeakheights, pk_relpeaklags = relpeaklags,
                        pk_peakindices = peakindices,
                        pk_bestlag = relpeaklags ! 1,
                        pk_bestpeakheight = relpeakheights ! 1,
                        pk_bestpeakindex = peakindices ! 1\<rparr>)))))))"


section \<open>macf.py: the period finder\<close>

text \<open>
  Python values as they appear in the returned dictionary. A dictionary keeps its
  insertion order, so it is an association list. \<open>PyRef\<close> is a reference to a
  dictionary object in the store: the result echoes the \<open>smoothfunckwargs\<close> object
  itself, not a copy of it.
\<close>

datatype pyval =
    PyNone
  | PyBool bool
  | PyInt int
  | PyFloat npfloat
  | PyStr string
  | PyIntArray "int list"
  | PyFloatArray "npfloat list"
  | PyFloatMatrix "npfloat list list"
  | PyRef nat
  | PyDict "(string \<times> pyval) list"

type_synonym pydict = "(string \<times> pyval) list"

text \<open>The two warnings \<open>macf_period_find\<close> can log, with the values they format.\<close>

datatype logmsg = FitFailedWarning | AliasWarning npfloat real

text \<open>
  What outlives a call: the dictionary objects reachable by the caller, by address, and
  the messages handed to the logger.
\<close>

record pystate =
  st_heap :: "nat \<Rightarrow> pydict"
  st_log :: "logmsg list"

text \<open>
  The default value \<open>smoothfunckwargs={}\<close> is one dictionary object, created when the
  function is defined and shared by every call that does not pass its own.
\<close>

definition smoothfunckwargs_default :: nat where
  "smoothfunckwargs_default = 0"

text \<open>
  What \<open>np.polyfit(fitx, fity, 1, cov=True)\<close> returns: the coefficients (slope,
  intercept) and the two rows of the covariance matrix. The fitting routine and the
  smoothing function belong to the numerical libraries and are parameters of the model.
\<close>

type_synonym fitresult =
  "(npfloat \<times> npfloat) \<times> ((npfloat \<times> npfloat) \<times> (npfloat \<times> npfloat))"

type_synonym polyfit_fn = "real list \<Rightarrow> real list \<Rightarrow> pyerror + fitresult"

type_synonym smooth_fn = "npfloat list \<Rightarrow> pydict \<Rightarrow> pyerror + npfloat list"

text \<open>
  Lines 234 to 242: when \<open>smoothacf\<close> is a positive integer the \<open>smoothfunckwargs\<close>
  object is updated in place and the smoothing function is called with its entries;
  otherwise the ACF is used as it is.
\<close>

definition macf_smooth ::
  "smooth_fn \<Rightarrow> npfloat list \<Rightarrow> int option \<Rightarrow> nat \<Rightarrow> pystate
     \<Rightarrow> (pyerror + npfloat list) \<times> pystate" where
  "macf_smooth smoothfunc acf smoothacf smoothfunckwargs st =
     (case smoothacf of
        None \<Rightarrow> (Inr acf, st)
      | Some w \<Rightarrow>
          if 0 < w then
            (let st' = st\<lparr>st_heap := (st_heap st)
                          (smoothfunckwargs :=
                             AList.update ''windowsize'' (PyInt w)
                               (st_heap st smoothfunckwargs))\<rparr>
             in (smoothfunc acf (st_heap st' smoothfunckwargs), st'))
          else (Inr acf, st))"

text \<open>
  Line 247: \<open>int(smoothacf/2)\<close>. Dividing \<open>None\<close> raises TypeError; for an integer
  the quotient is truncated towards zero.
\<close>

definition macf_searchinterval :: "int option \<Rightarrow> pyerror + int" where
  "macf_searchinterval smoothacf =
     (case smoothacf of
        None \<Rightarrow> Inl TypeError
      | Some w \<Rightarrow> Inr (if 0 \<le> w then w div 2 else - ((- w) div 2)))"

text \<open>
  Lines 252 to 278, the \<open>try\<close> block: the fit samples, the fit, the slope and the
  square root of the first diagonal entry of the covariance. The handler logs the
  warning, assigns NaN to four local names and then re-raises with a bare \<open>raise\<close>, so
  the assignments are never read.
\<close>

definition macf_fity :: "peakres \<Rightarrow> real \<Rightarrow> real list" where
  "macf_fity peakres cadence =
     map (\<lambda>l. real_of_int l * cadence)
         (0 # pk_bestlag peakres
            # filter (\<lambda>l. pk_bestlag peakres < l) (pk_relpeaklags peakres))"

definition macf_fit ::
  "polyfit_fn \<Rightarrow> peakres \<Rightarrow> real \<Rightarrow> pystate
     \<Rightarrow> (pyerror + fitresult \<times> npfloat \<times> npfloat) \<times> pystate" where
  "macf_fit polyfit peakres cadence st =
     (let fity = macf_fity peakres cadence;
          fitx = map real [0..<length fity]
      in (case polyfit fitx fity of
            Inl e \<Rightarrow> (Inl e, st\<lparr>st_log := st_log st @ [FitFailedWarning]\<rparr>)
          | Inr fit \<Rightarrow> (Inr (fit, fst (fst fit), np_sqrt (fst (fst (snd fit)))), st)))"

definition acfres_dict :: "acfres \<Rightarrow> pydict" where
  "acfres_dict r =
     [(''itimes'', PyFloatArray (map Fin (ac_itimes r))),
      (''imags'', PyFloatArray (map Fin (ac_imags r))),
      (''ierrs'', PyFloatArray (map Fin (ac_ierrs r))),
      (''cadence'', PyFloat (Fin (ac_cadence r))),
      (''minitime'', PyFloat (Fin (ac_minitime r))),
      (''lags'', PyIntArray (ac_lags r)),
      (''acf'', PyFloatArray (ac_acf r))]"

definition peakres_dict :: "peakres \<Rightarrow> pydict" where
  "peakres_dict p =
     [(''maxinds'', PyIntArray (map int (pk_maxinds p))),
      (''maxacfs'', PyFloatArray (pk_maxacfs p)),
      (''maxlags'', PyIntArray (pk_maxlags p)),
      (''mininds'', PyIntArray (map int (pk_mininds p))),
      (''minacfs'', PyFloatArray (pk_minacfs p)),
      (''minlags'', PyIntArray (pk_minlags p)),
      (''relpeakheights'', PyFloatArray (pk_relpeakheights p)),
      (''relpeaklags'', PyIntArray (pk_relpeaklags p)),
      (''peakindices'', PyIntArray (pk_peakindices p)),
      (''bestlag'', PyInt (pk_bestlag p)),
      (''bestpeakheight'', PyFloat (pk_bestpeakheight p)),
      (''bestpeakindex'', PyInt (pk_bestpeakindex p))]"

definition pyval_of_int_option :: "int option \<Rightarrow> pyval" where
  "pyval_of_int_option v = (case v of None \<Rightarrow> PyNone | Some i \<Rightarrow> PyInt i)"

text \<open>
  Lines 280 to 316: the naive period, the alias warning, the choice of the best period
  and the returned dictionary. Nothing but the logged warning depends on the comparison
  of the fitted with the naive period.
\<close>

definition macf_finish ::
  "acfres \<Rightarrow> npfloat list \<Rightarrow> peakres \<Rightarrow> fitresult \<Rightarrow> npfloat \<Rightarrow> npfloat
     \<Rightarrow> int option \<Rightarrow> int \<Rightarrow> pyval \<Rightarrow> pyval \<Rightarrow> int option \<Rightarrow> nat \<Rightarrow> pyval \<Rightarrow> pyval
     \<Rightarrow> pystate \<Rightarrow> (pyerror + pydict) \<times> pystate" where
  "macf_finish acfres xacf peakres fit fitbestperiod bestperiodrms
       maxlags maxacfpeaks fillgaps filterwindow smoothacf smoothfunckwargs magsarefluxes
       sigclip st2 =
     (let xlags = ac_lags acfres;
          bestlspval = pk_bestpeakheight peakres;
          fitcoeffs = fst fit;
          fitcovar = snd fit;
          naivebestperiod = real_of_int (pk_bestlag peakres) * ac_cadence acfres;
          st3 = (if np_less fitbestperiod (Fin naivebestperiod)
                 then st2\<lparr>st_log := st_log st2
                                      @ [AliasWarning fitbestperiod naivebestperiod]\<rparr>
                 else st2);
          bestperiod = (if np_isfinite fitbestperiod then fitbestperiod
                        else Fin naivebestperiod)
      in (Inr [(''bestperiod'', PyFloat bestperiod),
               (''bestlspval'', PyFloat bestlspval),
               (''nbestpeaks'', PyInt maxacfpeaks),
               (''lspvals'', PyFloatArray xacf),
               (''periods'',
                  PyFloatArray (map (\<lambda>l. Fin (real_of_int l * ac_cadence acfres)) xlags)),
               (''acf'', PyFloatArray xacf),
               (''lags'', PyIntArray xlags),
               (''method'', PyStr ''acf''),
               (''naivebestperiod'', PyFloat (Fin naivebestperiod)),
               (''fitbestperiod'', PyFloat fitbestperiod),
               (''fitperiodrms'', PyFloat bestperiodrms),
               (''periodfitcoeffs'', PyFloatArray [fst fitcoeffs, snd fitcoeffs]),
               (''periodfitcovar'',
                  PyFloatMatrix [[fst (fst fitcovar), snd (fst fitcovar)],
                                 [fst (snd fitcovar), snd (snd fitcovar)]]),
               (''kwargs'',
                  PyDict [(''maxlags'', pyval_of_int_option maxlags),
                          (''maxacfpeaks'', PyInt maxacfpeaks),
                          (''fillgaps'', fillgaps),
                          (''filterwindow'', filterwindow),
                          (''smoothacf'', pyval_of_int_option smoothacf),
                          (''smoothfunckwargs'', PyRef smoothfunckwargs),
                          (''magsarefluxes'', magsarefluxes),
                          (''sigclip'', sigclip)]),
               (''acfresults'', PyDict (acfres_dict acfres)),
               (''acfpeaks'', PyDict (peakres_dict peakres))],
          st3))"

text \<open>
  \<open>macf_period_find\<close>. The arguments \<open>times\<close>, \<open>mags\<close>, \<open>errs\<close>, \<open>forcetimebin\<close> and
  \<open>verbose\<close> only reach the external gap-filling routine, whose result is the argument
  \<open>interpolated\<close>; \<open>fillgaps\<close>, \<open>filterwindow\<close>, \<open>magsarefluxes\<close> and \<open>sigclip\<close> are
  also echoed in the result. \<open>smoothfunckwargs\<close> is the address of the dictionary
  object passed. The function returns the dictionary or the exception, and the state.
  An exception of any stage leaves the function at once, with the state as it is then.
\<close>

definition macf_period_find ::
  "polyfit_fn \<Rightarrow> smooth_fn \<Rightarrow> gapfilled option \<Rightarrow> int option \<Rightarrow> int \<Rightarrow> pyval \<Rightarrow> pyval
     \<Rightarrow> int option \<Rightarrow> nat \<Rightarrow> pyval \<Rightarrow> pyval \<Rightarrow> pystate
     \<Rightarrow> (pyerror + pydict) \<times> pystate" where
  "macf_period_find polyfit smoothfunc interpolated maxlags maxacfpeaks fillgaps filterwindow
       smoothacf smoothfunckwargs magsarefluxes sigclip st =
     (case autocorr_magseries interpolated maxlags of
        Inl e \<Rightarrow> (Inl e, st)
      | Inr acfres \<Rightarrow>
     (case macf_smooth smoothfunc (ac_acf acfres) smoothacf smoothfunckwargs st of
        (Inl e, st1) \<Rightarrow> (Inl e, st1)
      | (Inr xacf, st1) \<Rightarrow>
     (case macf_searchinterval smoothacf of
        Inl e \<Rightarrow> (Inl e, st1)
      | Inr searchinterval \<Rightarrow>
     (case get_acf_peakheights (ac_lags acfres) xacf maxacfpeaks searchinterval of
        Inl e \<Rightarrow> (Inl e, st1)
      | Inr peakres \<Rightarrow>
     (case macf_fit polyfit peakres (ac_cadence acfres) st1 of
        (Inl e, st2) \<Rightarrow> (Inl e, st2)
      | (Inr (fit, fitbestperiod, bestperiodrms), st2) \<Rightarrow>
          macf_finish acfres xacf peakres fit fitbestperiod bestperiodrms
            maxlags maxacfpeaks fillgaps filterwindow smoothacf smoothfunckwargs
            magsarefluxes sigclip st2)))))"

section \<open>Instances of the library parameters\<close>

text \<open>
  A reference model of \<open>np.polyfit(x, y, 1, cov=True)\<close> in exact arithmetic: the
  closed form of the least-squares line, the covariance \<open>inv(X\<^sup>T X)\<close> scaled by the
  residual sum of squares over \<open>len(x) - 2\<close>. A singular normal matrix cannot be
  inverted (LinAlgError), and with two points or fewer the covariance cannot be scaled
  (ValueError).
\<close>

definition np_polyfit1 :: polyfit_fn where
  "np_polyfit1 x y =
     (if x = [] then Inl TypeError
      else if length x = length y then
        (let n = real (length x);
             sx = sum_list x;
             sy = sum_list y;
             sxx = sum_list (map (\<lambda>a. a * a) x);
             sxy = sum_list (map (\<lambda>(a, b). a * b) (zip x y));
             det = n * sxx - sx * sx
         in if det = 0 then Inl LinAlgError
            else if length x \<le> 2 then Inl ValueError
            else
              (let slope = (n * sxy - sx * sy) / det;
                   icpt = (sy * sxx - sx * sxy) / det;
                   resid = sum_list (map (\<lambda>(a, b). (b - (slope * a + icpt))
                                                    * (b - (slope * a + icpt))) (zip x y));
                   fac = resid / (n - 2)
               in Inr ((Fin slope, Fin icpt),
                       ((Fin (fac * n / det), Fin (- (fac * sx / det))),
                        (Fin (- (fac * sx / det)), Fin (fac * sxx / det))))))
      else Inl TypeError)"

text \<open>
  A smoothing function that hands the sequence back: what the quadratic
  Savitzky-Golay filter does, up to rounding, for the window size 3.
\<close>

definition smooth_passthrough :: smooth_fn where
  "smooth_passthrough acf kwargs = Inr acf"

text \<open>A store in which every dictionary object is empty, and an empty log.\<close>

definition st_empty :: pystate where
  "st_empty = \<lparr>st_heap = (\<lambda>a. []), st_log = []\<rparr>"

section \<open>Example inputs\<close>

text \<open>
  Three short gap-filled series, with what the stages of the pipeline make of them, and
  the state after the smoothing stage has run with the window size 3 on the empty store.
\<close>

abbreviation series_a :: gapfilled where
  "series_a \<equiv> \<lparr>gf_itimes = [0, 1/2, 1, 3/2, 2, 5/2, 3],
                 gf_imags = [1, - 1, 1, - 1, 1, - 1, 1],
                 gf_ierrs = [0, 0, 0, 0, 0, 0, 0], gf_cadence = 1/2\<rparr>"

abbreviation acf_a :: "npfloat list" where
  "acf_a \<equiv> [Fin 1, Fin (- (6/7)), Fin (5/7), Fin (- (4/7)), Fin (3/7), Fin (- (2/7)),
            Fin (1/7)]"

abbreviation acfres_a :: acfres where
  "acfres_a \<equiv> \<lparr>ac_itimes = [0, 1/2, 1, 3/2, 2, 5/2, 3],
                 ac_imags = [1, - 1, 1, - 1, 1, - 1, 1],
                 ac_ierrs = [0, 0, 0, 0, 0, 0, 0], ac_cadence = 1/2, ac_minitime = 0,
                 ac_lags = [0, 1, 2, 3, 4, 5, 6], ac_acf = acf_a\<rparr>"

abbreviation peakres_a :: peakres where
  "peakres_a \<equiv> \<lparr>pk_maxinds = [2, 4], pk_maxacfs = [Fin (5/7), Fin (3/7)],
                  pk_maxlags = [2, 4], pk_mininds = [1, 3, 5],
                  pk_minacfs = [Fin (- (6/7)), Fin (- (4/7)), Fin (- (2/7))],
                  pk_minlags = [1, 3, 5],
                  pk_relpeakheights = [Fin (10/7), Fin (6/7)], pk_relpeaklags = [2, 4],
                  pk_peakindices = [0, 1], pk_bestlag = 2, pk_bestpeakheight = Fin (10/7),
                  pk_bestpeakindex = 0\<rparr>"

abbreviation fit_a :: fitresult where
  "fit_a \<equiv> ((Fin 1, Fin 0), ((Fin 0, Fin 0), (Fin 0, Fin 0)))"

abbreviation series_b :: gapfilled where
  "series_b \<equiv> \<lparr>gf_itimes = [0, 2, 4, 6, 8, 10, 12, 14],
                 gf_imags = [- 1, 0, - 1, 1, 0, - 1, 1, 0],
                 gf_ierrs = [0, 0, 0, 0, 0, 0, 0, 0], gf_cadence = 2\<rparr>"

abbreviation acf_b :: "npfloat list" where
  "acf_b \<equiv> [Fin 1, Fin (- (2/5)), Fin 0, Fin (1/5), Fin (- (1/5)), Fin (1/5),
            Fin (- (1/5)), Fin 0]"

abbreviation acfres_b :: acfres where
  "acfres_b \<equiv> \<lparr>ac_itimes = [0, 2, 4, 6, 8, 10, 12, 14],
                 ac_imags = [- 1, 0, - 1, 1, 0, - 1, 1, 0],
                 ac_ierrs = [0, 0, 0, 0, 0, 0, 0, 0], ac_cadence = 2, ac_minitime = 0,
                 ac_lags = [0, 1, 2, 3, 4, 5, 6, 7], ac_acf = acf_b\<rparr>"

abbreviation peakres_b :: peakres where
  "peakres_b \<equiv> \<lparr>pk_maxinds = [3, 5], pk_maxacfs = [Fin (1/5), Fin (1/5)],
                  pk_maxlags = [3, 5], pk_mininds = [1, 4, 6],
                  pk_minacfs = [Fin (- (2/5)), Fin (- (1/5)), Fin (- (1/5))],
                  pk_minlags = [1, 4, 6],
                  pk_relpeakheights = [Fin (1/2), Fin (2/5)], pk_relpeaklags = [3, 5],
                  pk_peakindices = [0, 1], pk_bestlag = 3, pk_bestpeakheight = Fin (1/2),
                  pk_bestpeakindex = 0\<rparr>"

abbreviation fit_b :: fitresult where
  "fit_b \<equiv> ((Fin 5, Fin (1/3)), ((Fin (1/3), Fin (- (1/3))), (Fin (- (1/3)), Fin (5/9))))"

abbreviation series_c :: gapfilled where
  "series_c \<equiv> \<lparr>gf_itimes = [0, 1, 2, 3, 4, 5, 6],
                 gf_imags = [- 1, 1, - 1, - 1, - 1, 1, - 1],
                 gf_ierrs = [0, 0, 0, 0, 0, 0, 0], gf_cadence = 1\<rparr>"

abbreviation acf_c :: "npfloat list" where
  "acf_c \<equiv> [Fin 1, Fin (- (2/7)), Fin (1/7), Fin 0, Fin (3/7), Fin (- (2/7)), Fin (1/7)]"

abbreviation acfres_c :: acfres where
  "acfres_c \<equiv> \<lparr>ac_itimes = [0, 1, 2, 3, 4, 5, 6],
                 ac_imags = [- 1, 1, - 1, - 1, - 1, 1, - 1],
                 ac_ierrs = [0, 0, 0, 0, 0, 0, 0], ac_cadence = 1, ac_minitime = 0,
                 ac_lags = [0, 1, 2, 3, 4, 5, 6], ac_acf = acf_c\<rparr>"

abbreviation peakres_c :: peakres where
  "peakres_c \<equiv> \<lparr>pk_maxinds = [2, 4], pk_maxacfs = [Fin (1/7), Fin (3/7)],
                  pk_maxlags = [2, 4], pk_mininds = [1, 3, 5],
                  pk_minacfs = [Fin (- (2/7)), Fin 0, Fin (- (2/7))],
                  pk_minlags = [1, 3, 5],
                  pk_relpeakheights = [Fin (2/7), Fin (4/7)], pk_relpeaklags = [2, 4],
                  pk_peakindices = [0, 1], pk_bestlag = 4, pk_bestpeakheight = Fin (4/7),
                  pk_bestpeakindex = 1\<rparr>"

abbreviation st_w3 :: pystate where
  "st_w3 \<equiv> \<lparr>st_heap = (\<lambda>a. [])(smoothfunckwargs_default := [(''windowsize'', PyInt 3)]),
             st_log = []\<rparr>"

text \<open>
  The calls of \<open>macf_period_find\<close> on the three series: no \<open>maxlags\<close>, two peaks, the
  default \<open>smoothfunckwargs\<close> object, smoothing window 3, on the empty store.
\<close>

abbreviation run_a :: "(pyerror + pydict) \<times> pystate" where
  "run_a \<equiv> macf_period_find np_polyfit1 smooth_passthrough (Some series_a) None 2
             (PyFloat (Fin 0)) (PyInt 11) (Some 3) smoothfunckwargs_default (PyBool False)
             (PyFloat (Fin 3)) st_empty"

abbreviation run_b :: "(pyerror + pydict) \<times> pystate" where
  "run_b \<equiv> macf_period_find np_polyfit1 smooth_passthrough (Some series_b) None 2
             (PyFloat (Fin 0)) (PyInt 11) (Some 3) smoothfunckwargs_default (PyBool False)
             (PyFloat (Fin 3)) st_empty"

abbreviation run_c :: "(pyerror + pydict) \<times> pystate" where
  "run_c \<equiv> macf_period_find np_polyfit1 smooth_passthrough (Some series_c) None 2
             (PyFloat (Fin 0)) (PyInt 11) (Some 3) smoothfunckwargs_default (PyBool False)
             (PyFloat (Fin 3)) st_empty"

abbreviation kwargs_echo :: pyval where
  "kwargs_echo \<equiv> PyDict [(''maxlags'', PyNone), (''maxacfpeaks'', PyInt 2),
                          (''fillgaps'', PyFloat (Fin 0)), (''filterwindow'', PyInt 11),
                          (''smoothacf'', PyInt 3),
                          (''smoothfunckwargs'', PyRef smoothfunckwargs_default),
                          (''magsarefluxes'', PyBool False), (''sigclip'', PyFloat (Fin 3))]"

abbreviation dict_a :: pydict where
  "dict_a \<equiv> [(''bestperiod'', PyFloat (Fin 1)),
             (''bestlspval'', PyFloat (Fin (10/7))),
             (''nbestpeaks'', PyInt 2),
             (''lspvals'', PyFloatArray acf_a),
             (''periods'',
                PyFloatArray [Fin 0, Fin (1/2), Fin 1, Fin (3/2), Fin 2, Fin (5/2), Fin 3]),
             (''acf'', PyFloatArray acf_a),
             (''lags'', PyIntArray [0, 1, 2, 3, 4, 5, 6]),
             (''method'', PyStr ''acf''),
             (''naivebestperiod'', PyFloat (Fin 1)),
             (''fitbestperiod'', PyFloat (Fin 1)),
             (''fitperiodrms'', PyFloat (Fin 0)),
             (''periodfitcoeffs'', PyFloatArray [Fin 1, Fin 0]),
             (''periodfitcovar'', PyFloatMatrix [[Fin 0, Fin 0], [Fin 0, Fin 0]]),
             (''kwargs'', kwargs_echo),
             (''acfresults'', PyDict (acfres_dict acfres_a)),
             (''acfpeaks'', PyDict (peakres_dict peakres_a))]"

abbreviation dict_b :: pydict where
  "dict_b \<equiv> [(''bestperiod'', PyFloat (Fin 5)),
             (''bestlspval'', PyFloat (Fin (1/2))),
             (''nbestpeaks'', PyInt 2),
             (''lspvals'', PyFloatArray acf_b),
             (''periods'',
                PyFloatArray [Fin 0, Fin 2, Fin 4, Fin 6, Fin 8, Fin 10, Fin 12, Fin 14]),
             (''acf'', PyFloatArray acf_b),
             (''lags'', PyIntArray [0, 1, 2, 3, 4, 5, 6, 7]),
             (''method'', PyStr ''acf''),
             (''naivebestperiod'', PyFloat (Fin 6)),
             (''fitbestperiod'', PyFloat (Fin 5)),
             (''fitperiodrms'', PyFloat (Fin (sqrt (1/3)))),
             (''periodfitcoeffs'', PyFloatArray [Fin 5, Fin (1/3)]),
             (''periodfitcovar'',
                PyFloatMatrix [[Fin (1/3), Fin (- (1/3))], [Fin (- (1/3)), Fin (5/9)]]),
             (''kwargs'', kwargs_echo),
             (''acfresults'', PyDict (acfres_dict acfres_b)),
             (''acfpeaks'', PyDict (peakres_dict peakres_b))]"

section \<open>The normalisation of the correlation\<close>








section \<open>The correlator returns for every non-empty series\<close>

lemma autocorr_func3_returns:
  assumes "mags \<noteq> []"
  shows "\<exists>acf. autocorr_func3 mags lag maglen magmed magstd = Inr acf
               \<and> length acf = length mags"
proof -
  from assms obtain m where m: "length mags = Suc m" by (cases mags) auto
  let ?r = "map (corr_entry mags mags) [0..<length mags + length mags - 1]"
  have ne: "?r \<noteq> []" using m by simp
  have cf: "npcorrelate_full mags mags = Inr ?r"
    using assms by (simp add: npcorrelate_full_def)
  have nm: "npmax ?r = Inr (Max (set ?r))" using ne by (simp only: npmax_def if_False)
  let ?r' = "map (\<lambda>x. np_div x (Max (set ?r))) ?r"
  have run: "autocorr_func3 mags lag maglen magmed magstd = Inr (drop (length ?r' div 2) ?r')"
    unfolding autocorr_func3_def cf by (simp only: sum.case nm Let_def)
  have "length ?r' = Suc (m + m)" using m by simp
  then have "length (drop (length ?r' div 2) ?r') = length mags" using m by simp
  with run show ?thesis by simp
qed

lemma nparange_nonempty: "0 < n \<Longrightarrow> \<exists>x xs. nparange 0 n = x # xs"
  by (cases "nparange 0 n") (auto simp: nparange_def)

lemma nparange_length: "length (nparange 0 n) = nat n"
  by (simp add: nparange_def)

lemma autocorr_magseries_returns:
  assumes "gf_itimes interp \<noteq> []" and "gf_imags interp \<noteq> []"
    and "lags = (case maxlags of None \<Rightarrow> nparange 0 (int (length (gf_itimes interp)))
                 | Some ml \<Rightarrow> if ml = 0 then nparange 0 (int (length (gf_itimes interp)))
                             else nparange 0 ml)"
    and "lags \<noteq> []"
  shows "\<exists>res. autocorr_magseries (Some interp) maxlags = Inr res
               \<and> ac_lags res = lags \<and> length (ac_acf res) = length (gf_imags interp)
               \<and> ac_cadence res = gf_cadence interp"
proof -
  from assms(4) obtain lag0 rest where l: "lags = lag0 # rest" by (cases lags) auto
  from autocorr_func3_returns [OF assms(2)]
  obtain acf where a: "autocorr_func3 (gf_imags interp) lag0 (length (gf_imags interp)) 0
                         (np_scale 1.483 (npmedian (map abs (gf_imags interp)))) = Inr acf"
    and len: "length acf = length (gf_imags interp)" by blast
  show ?thesis
    using assms(1) a len l assms(3) [symmetric]
    by (simp add: autocorr_magseries_def Let_def)
qed

text \<open>
  Claim C6, amended. For every gap-filled series of n samples, n at least 1: when a
  maximum lag count L of at least 1 is given the correlator returns and its lag sequence
  has exactly L entries, the lags 0 to L - 1; when none is given it returns and both the
  lag sequence and the ACF have exactly n entries.
\<close>

theorem autocorr_magseries_lag_count:
  assumes "gf_itimes interp \<noteq> []"
    and "length (gf_imags interp) = length (gf_itimes interp)"
    and "0 < L"
  shows "(\<exists>res. autocorr_magseries (Some interp) (Some L) = Inr res
               \<and> ac_lags res = [0..L - 1] \<and> length (ac_lags res) = nat L)
       \<and> (\<exists>res. autocorr_magseries (Some interp) None = Inr res
               \<and> length (ac_lags res) = length (gf_itimes interp)
               \<and> length (ac_acf res) = length (gf_itimes interp))"
proof -
  from assms(1,2) have im: "gf_imags interp \<noteq> []" by auto
  have l1: "nparange 0 L \<noteq> []" using nparange_nonempty [OF assms(3)] by auto
  have "\<exists>res. autocorr_magseries (Some interp) (Some L) = Inr res
               \<and> ac_lags res = nparange 0 L \<and> length (ac_acf res) = length (gf_imags interp)
               \<and> ac_cadence res = gf_cadence interp"
    by (rule autocorr_magseries_returns [OF assms(1) im _ l1]) (use assms(3) in simp)
  then have first: "\<exists>res. autocorr_magseries (Some interp) (Some L) = Inr res
               \<and> ac_lags res = [0..L - 1] \<and> length (ac_lags res) = nat L"
    using nparange_length [of L] by (auto simp: nparange_def)
  have "0 < int (length (gf_itimes interp))" using assms(1) by simp
  then have l2: "nparange 0 (int (length (gf_itimes interp))) \<noteq> []"
    using nparange_nonempty by fastforce
  have "\<exists>res. autocorr_magseries (Some interp) None = Inr res
               \<and> ac_lags res = nparange 0 (int (length (gf_itimes interp)))
               \<and> length (ac_acf res) = length (gf_imags interp)
               \<and> ac_cadence res = gf_cadence interp"
    by (rule autocorr_magseries_returns [OF assms(1) im _ l2]) simp
  then have second: "\<exists>res. autocorr_magseries (Some interp) None = Inr res
               \<and> length (ac_lags res) = length (gf_itimes interp)
               \<and> length (ac_acf res) = length (gf_itimes interp)"
    using nparange_length [of "int (length (gf_itimes interp))"] assms(2) by auto
  from first second show ?thesis by blast
qed

text \<open>
  Claim C7, amended. The correlator checks neither the length of the series nor the lag
  range: for every series with at least one sample, a series of one sample included, and
  for every maximum lag count L that is not negative, L beyond the length of the series
  included, or none, it returns an ACF with as many entries as the series has samples.
\<close>

theorem autocorr_magseries_no_validation:
  assumes "gf_itimes interp \<noteq> []" and "gf_imags interp \<noteq> []" and "0 \<le> L"
  shows "(\<exists>res. autocorr_magseries (Some interp) (Some L) = Inr res
               \<and> length (ac_acf res) = length (gf_imags interp))
       \<and> (\<exists>res. autocorr_magseries (Some interp) None = Inr res
               \<and> length (ac_acf res) = length (gf_imags interp))"
proof -
  have "0 < int (length (gf_itimes interp))" using assms(1) by simp
  then have l2: "nparange 0 (int (length (gf_itimes interp))) \<noteq> []"
    using nparange_nonempty by fastforce
  have second: "\<exists>res. autocorr_magseries (Some interp) None = Inr res
               \<and> ac_lags res = nparange 0 (int (length (gf_itimes interp)))
               \<and> length (ac_acf res) = length (gf_imags interp)
               \<and> ac_cadence res = gf_cadence interp"
    by (rule autocorr_magseries_returns [OF assms(1,2) _ l2]) simp
  let ?lags = "if L = 0 then nparange 0 (int (length (gf_itimes interp))) else nparange 0 L"
  have l1: "?lags \<noteq> []"
  proof (cases "L = 0")
    case True
    then show ?thesis using l2 by simp
  next
    case False
    with assms(3) have "0 < L" by simp
    from nparange_nonempty [OF this] False show ?thesis by auto
  qed
  have first: "\<exists>res. autocorr_magseries (Some interp) (Some L) = Inr res
               \<and> ac_lags res = ?lags
               \<and> length (ac_acf res) = length (gf_imags interp)
               \<and> ac_cadence res = gf_cadence interp"
    by (rule autocorr_magseries_returns [OF assms(1,2) _ l1]) simp
  from first second show ?thesis by blast
qed

section \<open>Stages of the period finder\<close>

lemma macf_period_find_ok:
  assumes "autocorr_magseries interpolated maxlags = Inr acfres"
    and "macf_smooth smoothfunc (ac_acf acfres) smoothacf smoothfunckwargs st = (Inr xacf, st1)"
    and "macf_searchinterval smoothacf = Inr si"
    and "get_acf_peakheights (ac_lags acfres) xacf maxacfpeaks si = Inr peakres"
    and "macf_fit polyfit peakres (ac_cadence acfres) st1 = (Inr (fit, fbp, rms), st2)"
  shows "macf_period_find polyfit smoothfunc interpolated maxlags maxacfpeaks fillgaps
           filterwindow smoothacf smoothfunckwargs magsarefluxes sigclip st
         = macf_finish acfres xacf peakres fit fbp rms maxlags maxacfpeaks fillgaps
             filterwindow smoothacf smoothfunckwargs magsarefluxes sigclip st2"
  using assms by (simp add: macf_period_find_def)

lemma macf_period_find_fit_error:
  assumes "autocorr_magseries interpolated maxlags = Inr acfres"
    and "macf_smooth smoothfunc (ac_acf acfres) smoothacf smoothfunckwargs st = (Inr xacf, st1)"
    and "macf_searchinterval smoothacf = Inr si"
    and "get_acf_peakheights (ac_lags acfres) xacf maxacfpeaks si = Inr peakres"
    and "macf_fit polyfit peakres (ac_cadence acfres) st1 = (Inl e, st2)"
  shows "macf_period_find polyfit smoothfunc interpolated maxlags maxacfpeaks fillgaps
           filterwindow smoothacf smoothfunckwargs magsarefluxes sigclip st
         = (Inl e, st2)"
  using assms by (simp add: macf_period_find_def)

lemma macf_finish_returns:
  "\<exists>d st3. macf_finish acfres xacf peakres fit fbp rms maxlags maxacfpeaks fillgaps
             filterwindow smoothacf smoothfunckwargs magsarefluxes sigclip st2 = (Inr d, st3)"
  by (simp add: macf_finish_def Let_def)

lemma macf_period_find_Inr:
  assumes "fst (macf_period_find polyfit smoothfunc interpolated maxlags maxacfpeaks fillgaps
           filterwindow smoothacf smoothfunckwargs magsarefluxes sigclip st) = Inr res"
  shows "\<exists>acfres xacf st1 si peakres fit fbp rms st2.
           autocorr_magseries interpolated maxlags = Inr acfres
         \<and> macf_smooth smoothfunc (ac_acf acfres) smoothacf smoothfunckwargs st = (Inr xacf, st1)
         \<and> macf_searchinterval smoothacf = Inr si
         \<and> get_acf_peakheights (ac_lags acfres) xacf maxacfpeaks si = Inr peakres
         \<and> macf_fit polyfit peakres (ac_cadence acfres) st1 = (Inr (fit, fbp, rms), st2)
         \<and> macf_period_find polyfit smoothfunc interpolated maxlags maxacfpeaks fillgaps
             filterwindow smoothacf smoothfunckwargs magsarefluxes sigclip st
           = macf_finish acfres xacf peakres fit fbp rms maxlags maxacfpeaks fillgaps
               filterwindow smoothacf smoothfunckwargs magsarefluxes sigclip st2"
  using assms unfolding macf_period_find_def
  by (auto split: sum.splits prod.splits)

lemma macf_smooth_log:
  "macf_smooth smoothfunc acf smoothacf smoothfunckwargs st = (r, st1) \<Longrightarrow> st_log st1 = st_log st"
  by (auto simp: macf_smooth_def Let_def split: option.splits if_splits)

lemma macf_fit_Inr:
  assumes "macf_fit polyfit peakres cadence st1 = (Inr (fit, fbp, rms), st2)"
  shows "st2 = st1 \<and> fbp = fst (fst fit) \<and> rms = np_sqrt (fst (fst (snd fit)))
       \<and> polyfit (map real [0..<length (macf_fity peakres cadence)]) (macf_fity peakres cadence)
           = Inr fit"
  using assms by (auto simp: macf_fit_def Let_def split: sum.splits)

lemma macf_period_find_heap:
  assumes "autocorr_magseries interpolated maxlags = Inr acfres" and "0 < w"
  shows "st_heap (snd (macf_period_find polyfit smoothfunc interpolated maxlags maxacfpeaks
            fillgaps filterwindow (Some w) smoothfunckwargs magsarefluxes sigclip st))
           smoothfunckwargs
         = AList.update ''windowsize'' (PyInt w) (st_heap st smoothfunckwargs)"
  using assms
  by (auto simp: macf_period_find_def macf_smooth_def macf_fit_def macf_finish_def Let_def
           split: sum.splits prod.splits)

lemma macf_period_find_None:
  "\<exists>e. macf_period_find polyfit smoothfunc interpolated maxlags maxacfpeaks fillgaps
          filterwindow None smoothfunckwargs magsarefluxes sigclip st = (Inl e, st)"
  by (simp add: macf_period_find_def macf_smooth_def macf_searchinterval_def split: sum.splits)

section \<open>The peak extractor\<close>

lemma boolrelextrema_length:
  "boolrelextrema cmp data so = Inr results \<Longrightarrow> length results = length data"
  by (auto simp: boolrelextrema_def split: if_splits)

lemma argrelmin_bound:
  assumes "argrelmin acf so = Inr mininds"
  shows "list_all (\<lambda>i. i < length acf) mininds"
proof -
  from assms obtain results where r: "boolrelextrema np_less acf so = Inr results"
    and m: "mininds = filter (\<lambda>i. results ! i) [0..<length results]"
    by (auto simp: argrelmin_def split: sum.splits)
  from boolrelextrema_length [OF r] m show ?thesis by (auto simp: list_all_iff)
qed

lemma argrelmax_bound:
  assumes "argrelmax acf so = Inr maxinds"
  shows "list_all (\<lambda>i. i < length acf) maxinds"
proof -
  from assms obtain results where r: "boolrelextrema np_greater acf so = Inr results"
    and m: "maxinds = filter (\<lambda>i. results ! i) [0..<length results]"
    by (auto simp: argrelmax_def split: sum.splits)
  from boolrelextrema_length [OF r] m show ?thesis by (auto simp: list_all_iff)
qed

lemma argrelmax_order: "argrelmax acf so = Inr maxinds \<Longrightarrow> 1 \<le> so"
  by (auto simp: argrelmax_def boolrelextrema_def split: sum.splits if_splits)

lemma argrelmin_returns: "1 \<le> so \<Longrightarrow> \<exists>mininds. argrelmin acf so = Inr mininds"
  by (simp add: argrelmin_def boolrelextrema_def)

lemma take_indices_ok:
  "list_all (\<lambda>i. i < length xs) inds \<Longrightarrow> take_indices xs inds = Inr (map (\<lambda>i. xs ! i) inds)"
  by (simp add: take_indices_def)

lemma list_all_less_mono:
  "list_all (\<lambda>i. i < (n::nat)) inds \<Longrightarrow> n \<le> m \<Longrightarrow> list_all (\<lambda>i. i < m) inds"
  by (auto simp: list_all_iff)

text \<open>
  Claim C10, amended. For every lag and ACF input in which the search finds no local
  maximum, the lag array being at least as long as the ACF, and for npeaks at least 2,
  the peak extractor returns: all relative peak heights are 0, and the best lag, the best
  peak height and the best peak index are 0, read from the placeholders at index 1.
\<close>

theorem get_acf_peakheights_no_maxima:
  assumes "argrelmax acf searchinterval = Inr []"
    and "length acf \<le> length lags"
    and "2 \<le> npeaks"
  shows "\<exists>res. get_acf_peakheights lags acf npeaks searchinterval = Inr res
               \<and> pk_maxinds res = []
               \<and> pk_relpeakheights res = replicate (nat npeaks) (Fin 0)
               \<and> pk_relpeaklags res = replicate (nat npeaks) 0
               \<and> pk_bestlag res = 0 \<and> pk_bestpeakheight res = Fin 0
               \<and> pk_bestpeakindex res = 0"
proof -
  from argrelmin_returns [OF argrelmax_order [OF assms(1)]]
  obtain mininds where mi: "argrelmin acf searchinterval = Inr mininds" by blast
  from argrelmin_bound [OF mi] have b1: "list_all (\<lambda>i. i < length acf) mininds" .
  from list_all_less_mono [OF b1 assms(2)] have b2: "list_all (\<lambda>i. i < length lags) mininds" .
  have t1: "take_indices acf mininds = Inr (map (\<lambda>i. acf ! i) mininds)"
    by (rule take_indices_ok [OF b1])
  have t2: "take_indices lags mininds = Inr (map (\<lambda>i. lags ! i) mininds)"
    by (rule take_indices_ok [OF b2])
  have t0: "take_indices acf [] = Inr []" "take_indices lags [] = Inr []"
    by (simp_all add: take_indices_def)
  from assms(3) obtain n where n: "nat npeaks = Suc (Suc n)"
    by (metis Suc_le_D nat_2 nat_mono numeral_2_eq_2 Suc_le_mono le_0_eq not0_implies_Suc not_less_eq_eq)
  have np: "\<not> npeaks < 0" "\<not> nat npeaks < 2" using assms(3) by auto
  show ?thesis
    unfolding get_acf_peakheights_def
    by (simp add: assms(1) mi t0 t1 t2 np np_greater_def n)
qed




section \<open>The period refiner and the result\<close>


text \<open>
  Claim C2, amended. For every call that returns a result, the returned dictionary has
  the sixteen keys below and no alias flag among them; the call logs the alias warning
  exactly when the fitted period is smaller than the naive period, and logs nothing else.
\<close>

theorem macf_period_find_alias_warning:
  assumes "fst (macf_period_find polyfit smoothfunc interpolated maxlags maxacfpeaks fillgaps
           filterwindow smoothacf smoothfunckwargs magsarefluxes sigclip st) = Inr res"
  shows "map fst res = [''bestperiod'', ''bestlspval'', ''nbestpeaks'', ''lspvals'',
                        ''periods'', ''acf'', ''lags'', ''method'', ''naivebestperiod'',
                        ''fitbestperiod'', ''fitperiodrms'', ''periodfitcoeffs'',
                        ''periodfitcovar'', ''kwargs'', ''acfresults'', ''acfpeaks'']
       \<and> map_of res ''aliasSuspected'' = None
       \<and> (\<exists>fit naive.
             map_of res ''fitbestperiod'' = Some (PyFloat fit)
           \<and> map_of res ''naivebestperiod'' = Some (PyFloat (Fin naive))
           \<and> st_log (snd (macf_period_find polyfit smoothfunc interpolated maxlags maxacfpeaks
                  fillgaps filterwindow smoothacf smoothfunckwargs magsarefluxes sigclip st))
               = st_log st @ (if np_less fit (Fin naive) then [AliasWarning fit naive] else []))"
proof -
  from macf_period_find_Inr [OF assms]
  obtain acfres xacf st1 si peakres fit fbp rms st2 where
    s: "macf_smooth smoothfunc (ac_acf acfres) smoothacf smoothfunckwargs st = (Inr xacf, st1)"
    and f: "macf_fit polyfit peakres (ac_cadence acfres) st1 = (Inr (fit, fbp, rms), st2)"
    and r: "macf_period_find polyfit smoothfunc interpolated maxlags maxacfpeaks fillgaps
             filterwindow smoothacf smoothfunckwargs magsarefluxes sigclip st
           = macf_finish acfres xacf peakres fit fbp rms maxlags maxacfpeaks fillgaps
               filterwindow smoothacf smoothfunckwargs magsarefluxes sigclip st2"
    by blast
  from macf_fit_Inr [OF f] have "st2 = st1" by blast
  with macf_smooth_log [OF s] have lg: "st_log st2 = st_log st" by simp
  let ?naive = "real_of_int (pk_bestlag peakres) * ac_cadence acfres"
  from assms r have res: "res = projr (fst (macf_finish acfres xacf peakres fit fbp rms maxlags
               maxacfpeaks fillgaps filterwindow smoothacf smoothfunckwargs magsarefluxes
               sigclip st2))"
    by simp
  have k: "map fst res = [''bestperiod'', ''bestlspval'', ''nbestpeaks'', ''lspvals'',
                        ''periods'', ''acf'', ''lags'', ''method'', ''naivebestperiod'',
                        ''fitbestperiod'', ''fitperiodrms'', ''periodfitcoeffs'',
                        ''periodfitcovar'', ''kwargs'', ''acfresults'', ''acfpeaks'']"
    and n: "map_of res ''aliasSuspected'' = None"
    and m2: "map_of res ''fitbestperiod'' = Some (PyFloat fbp)"
    and m3: "map_of res ''naivebestperiod'' = Some (PyFloat (Fin ?naive))"
    unfolding res by (simp_all add: macf_finish_def Let_def)
  have l: "st_log (snd (macf_period_find polyfit smoothfunc interpolated maxlags maxacfpeaks
                  fillgaps filterwindow smoothacf smoothfunckwargs magsarefluxes sigclip st))
               = st_log st @ (if np_less fbp (Fin ?naive) then [AliasWarning fbp ?naive] else [])"
    unfolding r using lg by (simp add: macf_finish_def Let_def)
  from k n m2 m3 l show ?thesis by blast
qed

section \<open>The pipeline on the example inputs\<close>

lemma searchinterval_w3: "macf_searchinterval (Some 3) = Inr 1"
  by (simp add: macf_searchinterval_def)

lemma smooth_w3:
  "macf_smooth smooth_passthrough acf (Some 3) smoothfunckwargs_default st_empty
     = (Inr acf, st_w3)"
  by (simp add: macf_smooth_def smooth_passthrough_def st_empty_def Let_def)

lemma acfres_a_eval: "autocorr_magseries (Some series_a) None = Inr acfres_a"
  by code_simp

lemma peaks_a_eval: "get_acf_peakheights (ac_lags acfres_a) (ac_acf acfres_a) 2 1 = Inr peakres_a"
  by code_simp

lemma polyfit_a_eval: "np_polyfit1 [0, 1, 2] [0, 1, 2] = Inr fit_a"
  by code_simp

lemma fit_a_eval:
  "macf_fit np_polyfit1 peakres_a (ac_cadence acfres_a) st = (Inr (fit_a, Fin 1, Fin 0), st)"
  by (simp add: macf_fit_def macf_fity_def polyfit_a_eval Let_def upt_rec)

lemma finish_a_eval:
  "macf_finish acfres_a (ac_acf acfres_a) peakres_a fit_a (Fin 1) (Fin 0) None 2 (PyFloat (Fin 0))
     (PyInt 11) (Some 3) smoothfunckwargs_default (PyBool False) (PyFloat (Fin 3)) st_w3
   = (Inr dict_a, st_w3)"
  by (simp add: macf_finish_def Let_def pyval_of_int_option_def)

lemma run_a_eval: "run_a = (Inr dict_a, st_w3)"
proof -
  have "run_a = macf_finish acfres_a (ac_acf acfres_a) peakres_a fit_a (Fin 1) (Fin 0) None 2
     (PyFloat (Fin 0)) (PyInt 11) (Some 3) smoothfunckwargs_default (PyBool False)
     (PyFloat (Fin 3)) st_w3"
    by (rule macf_period_find_ok [OF acfres_a_eval smooth_w3 searchinterval_w3 peaks_a_eval
               fit_a_eval])
  then show ?thesis by (simp only: finish_a_eval)
qed

lemma acfres_b_eval: "autocorr_magseries (Some series_b) None = Inr acfres_b"
  by code_simp

lemma peaks_b_eval: "get_acf_peakheights (ac_lags acfres_b) (ac_acf acfres_b) 2 1 = Inr peakres_b"
  by code_simp

lemma polyfit_b_eval: "np_polyfit1 [0, 1, 2] [0, 6, 10] = Inr fit_b"
  by code_simp

lemma fit_b_eval:
  "macf_fit np_polyfit1 peakres_b (ac_cadence acfres_b) st
     = (Inr (fit_b, Fin 5, Fin (sqrt (1/3))), st)"
  by (simp add: macf_fit_def macf_fity_def polyfit_b_eval Let_def upt_rec)

lemma finish_b_eval:
  "macf_finish acfres_b (ac_acf acfres_b) peakres_b fit_b (Fin 5) (Fin (sqrt (1/3))) None 2
     (PyFloat (Fin 0)) (PyInt 11) (Some 3) smoothfunckwargs_default (PyBool False)
     (PyFloat (Fin 3)) st_w3
   = (Inr dict_b, st_w3\<lparr>st_log := [AliasWarning (Fin 5) 6]\<rparr>)"
  by (simp add: macf_finish_def Let_def pyval_of_int_option_def)

lemma run_b_eval: "run_b = (Inr dict_b, st_w3\<lparr>st_log := [AliasWarning (Fin 5) 6]\<rparr>)"
proof -
  have "run_b = macf_finish acfres_b (ac_acf acfres_b) peakres_b fit_b (Fin 5) (Fin (sqrt (1/3))) None 2
     (PyFloat (Fin 0)) (PyInt 11) (Some 3) smoothfunckwargs_default (PyBool False)
     (PyFloat (Fin 3)) st_w3"
    by (rule macf_period_find_ok [OF acfres_b_eval smooth_w3 searchinterval_w3 peaks_b_eval
               fit_b_eval])
  then show ?thesis by (simp only: finish_b_eval)
qed

lemma acfres_c_eval: "autocorr_magseries (Some series_c) None = Inr acfres_c"
  by code_simp

lemma peaks_c_eval: "get_acf_peakheights (ac_lags acfres_c) (ac_acf acfres_c) 2 1 = Inr peakres_c"
  by code_simp

lemma polyfit_c_eval: "np_polyfit1 [0, 1] [0, 4] = Inl ValueError"
  by code_simp

lemma fit_c_eval:
  "macf_fit np_polyfit1 peakres_c (ac_cadence acfres_c) st
     = (Inl ValueError, st\<lparr>st_log := st_log st @ [FitFailedWarning]\<rparr>)"
  by (simp add: macf_fit_def macf_fity_def polyfit_c_eval Let_def upt_rec)

text \<open>
  Claim C1 (the code does otherwise). When the fit cannot be solved the handler logs the
  warning and raises again: the call ends with the exception of the fitting routine and
  returns no result. On the third series the second maximum is the best one, no collected
  lag lies beyond it, the fit has two samples and the covariance cannot be scaled.
\<close>

theorem macf_period_find_fit_failure_raises:
  "fst run_c = Inl ValueError \<and> st_log (snd run_c) = [FitFailedWarning]"
proof -
  have "run_c = (Inl ValueError, st_w3\<lparr>st_log := st_log st_w3 @ [FitFailedWarning]\<rparr>)"
    by (rule macf_period_find_fit_error [OF acfres_c_eval smooth_w3 searchinterval_w3
               peaks_c_eval fit_c_eval])
  then show ?thesis by simp
qed

text \<open>
  Claim C2 as stated fails: on the second series the fitted period 5 is smaller than the
  naive period 6, and the returned dictionary has no key for an alias flag; the warning
  is in the log only.
\<close>

theorem macf_period_find_alias_flag_counterexample:
  "fst run_b = Inr dict_b
   \<and> map_of dict_b ''fitbestperiod'' = Some (PyFloat (Fin 5))
   \<and> map_of dict_b ''naivebestperiod'' = Some (PyFloat (Fin 6))
   \<and> map_of dict_b ''aliasSuspected'' = None
   \<and> st_log (snd run_b) = [AliasWarning (Fin 5) 6]"
  by (simp add: run_b_eval)

theorem macf_period_find_alias_warning_witness:
  "fst run_b = Inr dict_b
   \<and> map fst dict_b = [''bestperiod'', ''bestlspval'', ''nbestpeaks'', ''lspvals'',
                        ''periods'', ''acf'', ''lags'', ''method'', ''naivebestperiod'',
                        ''fitbestperiod'', ''fitperiodrms'', ''periodfitcoeffs'',
                        ''periodfitcovar'', ''kwargs'', ''acfresults'', ''acfpeaks'']
   \<and> map_of dict_b ''aliasSuspected'' = None
   \<and> (\<exists>fit naive.
         map_of dict_b ''fitbestperiod'' = Some (PyFloat fit)
       \<and> map_of dict_b ''naivebestperiod'' = Some (PyFloat (Fin naive))
       \<and> st_log (snd run_b)
           = st_log st_empty @ (if np_less fit (Fin naive) then [AliasWarning fit naive] else []))"
proof -
  have h: "fst run_b = Inr dict_b" by (simp only: run_b_eval fst_conv)
  show ?thesis by (rule conjI [OF h macf_period_find_alias_warning [OF h]])
qed

text \<open>
  Claim C3 (the code does otherwise). With \<open>smoothacf = None\<close> the smoothing is skipped,
  and the next statement divides \<open>None\<close> by 2: the call raises TypeError.
\<close>

theorem macf_period_find_smoothacf_none_raises:
  "macf_period_find np_polyfit1 smooth_passthrough (Some series_a) None 2
     (PyFloat (Fin 0)) (PyInt 11) None smoothfunckwargs_default (PyBool False)
     (PyFloat (Fin 3)) st_empty = (Inl TypeError, st_empty)"
  by (simp add: macf_period_find_def acfres_a_eval macf_smooth_def macf_searchinterval_def)


text \<open>
  Claim C9 (the code does otherwise). The call updates the \<open>smoothfunckwargs\<close> object in
  place. With the default argument that object is shared by all calls: it is empty before
  the first call and holds the window size after it, the dictionary returned by the first
  call refers to it, and a second call with another window size changes what that
  reference reads.
\<close>

theorem macf_period_find_mutates_smoothfunckwargs:
  "st_heap st_empty smoothfunckwargs_default = []
   \<and> fst run_a = Inr dict_a
   \<and> map_of dict_a ''kwargs'' = Some kwargs_echo
   \<and> st_heap (snd run_a) smoothfunckwargs_default = [(''windowsize'', PyInt 3)]
   \<and> st_heap (snd (macf_period_find np_polyfit1 smooth_passthrough (Some series_a) None 2
                      (PyFloat (Fin 0)) (PyInt 11) (Some 5) smoothfunckwargs_default
                      (PyBool False) (PyFloat (Fin 3)) (snd run_a)))
        smoothfunckwargs_default = [(''windowsize'', PyInt 5)]"
proof -
  have a: "st_heap st_empty smoothfunckwargs_default = []" by (simp add: st_empty_def)
  have b: "fst run_a = Inr dict_a" by (simp only: run_a_eval fst_conv)
  have c: "map_of dict_a ''kwargs'' = Some kwargs_echo" by simp
  have d: "st_heap (snd run_a) smoothfunckwargs_default = [(''windowsize'', PyInt 3)]"
    by (simp add: run_a_eval)
  have e: "st_heap (snd (macf_period_find np_polyfit1 smooth_passthrough (Some series_a) None 2
                      (PyFloat (Fin 0)) (PyInt 11) (Some 5) smoothfunckwargs_default
                      (PyBool False) (PyFloat (Fin 3)) (snd run_a)))
        smoothfunckwargs_default = [(''windowsize'', PyInt 5)]"
    by (simp add: macf_period_find_heap [OF acfres_a_eval] d)
  from a b c d e show ?thesis by (intro conjI)
qed

section \<open>The correlator and the peak extractor on example inputs\<close>

text \<open>
  Claim C6 as stated fails: for a series of 4 samples and the maximum lag count 2 the lag
  sequence has 2 entries and the ACF has 4, neither of them 3.
\<close>

theorem autocorr_magseries_lag_count_counterexample:
  "autocorr_magseries
     (Some \<lparr>gf_itimes = [0, 1, 2, 3], gf_imags = [1, - 1, 1, - 1], gf_ierrs = [0, 0, 0, 0],
            gf_cadence = 1\<rparr>) (Some 2)
   = Inr \<lparr>ac_itimes = [0, 1, 2, 3], ac_imags = [1, - 1, 1, - 1], ac_ierrs = [0, 0, 0, 0],
          ac_cadence = 1, ac_minitime = 0, ac_lags = [0, 1],
          ac_acf = [Fin 1, Fin (- (3/4)), Fin (1/2), Fin (- (1/4))]\<rparr>"
  by code_simp

theorem autocorr_magseries_lag_count_witness:
  "gf_itimes \<lparr>gf_itimes = [0, 1, 2, 3], gf_imags = [1, - 1, 1, - 1], gf_ierrs = [0, 0, 0, 0],
            gf_cadence = 1\<rparr> \<noteq> []
   \<and> length (gf_imags \<lparr>gf_itimes = [0, 1, 2, 3], gf_imags = [1, - 1, 1, - 1],
                        gf_ierrs = [0, 0, 0, 0], gf_cadence = 1\<rparr>)
       = length (gf_itimes \<lparr>gf_itimes = [0, 1, 2, 3], gf_imags = [1, - 1, 1, - 1],
                             gf_ierrs = [0, 0, 0, 0], gf_cadence = 1\<rparr>)
   \<and> (0::int) < 2
   \<and> (\<exists>res. autocorr_magseries
               (Some \<lparr>gf_itimes = [0, 1, 2, 3], gf_imags = [1, - 1, 1, - 1],
                      gf_ierrs = [0, 0, 0, 0], gf_cadence = 1\<rparr>) (Some 2) = Inr res
             \<and> ac_lags res = [0..2 - 1] \<and> length (ac_lags res) = nat 2)
   \<and> (\<exists>res. autocorr_magseries
               (Some \<lparr>gf_itimes = [0, 1, 2, 3], gf_imags = [1, - 1, 1, - 1],
                      gf_ierrs = [0, 0, 0, 0], gf_cadence = 1\<rparr>) None = Inr res
             \<and> length (ac_lags res)
                 = length (gf_itimes \<lparr>gf_itimes = [0, 1, 2, 3], gf_imags = [1, - 1, 1, - 1],
                                       gf_ierrs = [0, 0, 0, 0], gf_cadence = 1\<rparr>)
             \<and> length (ac_acf res)
                 = length (gf_itimes \<lparr>gf_itimes = [0, 1, 2, 3], gf_imags = [1, - 1, 1, - 1],
                                       gf_ierrs = [0, 0, 0, 0], gf_cadence = 1\<rparr>))"
proof -
  let ?s = "\<lparr>gf_itimes = [0, 1, 2, 3], gf_imags = [1, - 1, 1, - 1], gf_ierrs = [0, 0, 0, 0],
            gf_cadence = (1::real)\<rparr>"
  have h1: "gf_itimes ?s \<noteq> []" by simp
  have h2: "length (gf_imags ?s) = length (gf_itimes ?s)" by simp
  have h3: "(0::int) < 2" by simp
  from autocorr_magseries_lag_count [OF h1 h2 h3] h1 h2 h3 show ?thesis by blast
qed

text \<open>
  Claim C7 as stated fails: a series of one sample is correlated without an error, and so
  is a series of two samples with the maximum lag count 5.
\<close>

theorem autocorr_magseries_no_validation_counterexample:
  "autocorr_magseries
     (Some \<lparr>gf_itimes = [0], gf_imags = [2], gf_ierrs = [0], gf_cadence = 1\<rparr>) None
   = Inr \<lparr>ac_itimes = [0], ac_imags = [2], ac_ierrs = [0], ac_cadence = 1, ac_minitime = 0,
          ac_lags = [0], ac_acf = [Fin 1]\<rparr>
   \<and> autocorr_magseries
       (Some \<lparr>gf_itimes = [0, 1], gf_imags = [1, - 1], gf_ierrs = [0, 0], gf_cadence = 1\<rparr>)
       (Some 5)
     = Inr \<lparr>ac_itimes = [0, 1], ac_imags = [1, - 1], ac_ierrs = [0, 0], ac_cadence = 1,
            ac_minitime = 0, ac_lags = [0, 1, 2, 3, 4], ac_acf = [Fin 1, Fin (- (1/2))]\<rparr>"
  by code_simp

theorem autocorr_magseries_no_validation_witness:
  "gf_itimes \<lparr>gf_itimes = [0], gf_imags = [2], gf_ierrs = [0], gf_cadence = 1\<rparr> \<noteq> []
   \<and> gf_imags \<lparr>gf_itimes = [0], gf_imags = [2], gf_ierrs = [0], gf_cadence = 1\<rparr> \<noteq> []
   \<and> (0::int) \<le> 5
   \<and> (\<exists>res. autocorr_magseries
               (Some \<lparr>gf_itimes = [0], gf_imags = [2], gf_ierrs = [0], gf_cadence = 1\<rparr>)
               (Some 5) = Inr res
             \<and> length (ac_acf res)
                 = length (gf_imags \<lparr>gf_itimes = [0], gf_imags = [2], gf_ierrs = [0],
                                      gf_cadence = 1\<rparr>))
   \<and> (\<exists>res. autocorr_magseries
               (Some \<lparr>gf_itimes = [0], gf_imags = [2], gf_ierrs = [0], gf_cadence = 1\<rparr>)
               None = Inr res
             \<and> length (ac_acf res)
                 = length (gf_imags \<lparr>gf_itimes = [0], gf_imags = [2], gf_ierrs = [0],
                                      gf_cadence = 1\<rparr>))"
proof -
  let ?s = "\<lparr>gf_itimes = [0], gf_imags = [2], gf_ierrs = [0], gf_cadence = (1::real)\<rparr>"
  have h1: "gf_itimes ?s \<noteq> []" by simp
  have h2: "gf_imags ?s \<noteq> []" by simp
  have h3: "(0::int) \<le> 5" by simp
  from autocorr_magseries_no_validation [OF h1 h2 h3] h1 h2 h3 show ?thesis by blast
qed

text \<open>
  Claim C10 as stated fails: the sequence 3, 1, 2 has no local maximum and a local
  minimum at index 1; with a lag array of one entry the minimum's lag cannot be read.
\<close>

theorem get_acf_peakheights_no_maxima_counterexample:
  "argrelmax [Fin 3, Fin 1, Fin 2] 1 = Inr []
   \<and> get_acf_peakheights [0] [Fin 3, Fin 1, Fin 2] 2 1 = Inl IndexError"
  by code_simp

theorem get_acf_peakheights_no_maxima_witness:
  "argrelmax [Fin 3, Fin 1, Fin 2] 1 = Inr []
   \<and> length [Fin 3, Fin 1, Fin 2] \<le> length [0, 1, 2 :: int]
   \<and> (2::int) \<le> 2
   \<and> (\<exists>res. get_acf_peakheights [0, 1, 2] [Fin 3, Fin 1, Fin 2] 2 1 = Inr res
             \<and> pk_maxinds res = []
             \<and> pk_relpeakheights res = replicate (nat 2) (Fin 0)
             \<and> pk_relpeaklags res = replicate (nat 2) 0
             \<and> pk_bestlag res = 0 \<and> pk_bestpeakheight res = Fin 0
             \<and> pk_bestpeakindex res = 0)"
proof -
  have h1: "argrelmax [Fin 3, Fin 1, Fin 2] 1 = Inr []" by code_simp
  have h2: "length [Fin 3, Fin 1, Fin 2] \<le> length [0, 1, 2 :: int]" by simp
  have h3: "(2::int) \<le> 2" by simp
  show ?thesis
    by (rule conjI [OF h1 conjI [OF h2 conjI [OF h3
              get_acf_peakheights_no_maxima [OF h1 h2 h3]]]])
qed


end
